theory Spec2Isabelle
  imports Main
begin

section \<open>Order use cases of bch-dex (src/use-cases/order/index.js)\<close>

text \<open>
  The class \<^verbatim>\<open>OrderUseCases\<close> orchestrates four collaborators that it receives
  through \<^verbatim>\<open>localConfig.adapters\<close> (the full node client \<^verbatim>\<open>bchjs\<close>, the wallet,
  the P2WDB client and the local database model \<^verbatim>\<open>Order\<close>) and the order entity
  validator. Its methods are \<^verbatim>\<open>async\<close>: each \<^verbatim>\<open>await\<close> is sequential, so a method
  is modelled as a function from the state before the call to its result and the state
  after it. A thrown error is the left injection of the result.
\<close>

subsection \<open>JavaScript values\<close>

text \<open>
  The dynamically typed values the methods inspect. A number is integer valued:
  \<open>JNum n\<close> is the double of the integer \<open>n\<close>, and the arithmetic below is the
  arithmetic of doubles as long as every value stays within \<open>\<plusminus>(2^53 - 1)\<close>, where
  doubles are exact; every amount of satoshis is (there are at most \<open>21 * 10^14\<close>).
  Fractions, infinities and integers beyond that range are outside the model; \<open>NaN\<close>
  is inside it, as \<open>None\<close> of the type \<open>number\<close>.
\<close>

datatype jsval = JUndefined | JNull | JBool bool | JNum int | JStr string

type_synonym number = "int option"

text \<open>\<^verbatim>\<open>typeof v\<close>.\<close>

fun typeof :: "jsval \<Rightarrow> string" where
  "typeof JUndefined = ''undefined''"
| "typeof JNull = ''object''"
| "typeof (JBool b) = ''boolean''"
| "typeof (JNum n) = ''number''"
| "typeof (JStr s) = ''string''"

text \<open>\<^verbatim>\<open>ToBoolean\<close>: what \<^verbatim>\<open>!v\<close>, \<^verbatim>\<open>v && ...\<close> and \<^verbatim>\<open>if (v)\<close> test.\<close>

fun truthy :: "jsval \<Rightarrow> bool" where
  "truthy JUndefined = False"
| "truthy JNull = False"
| "truthy (JBool b) = b"
| "truthy (JNum n) = (n \<noteq> 0)"
| "truthy (JStr s) = (s \<noteq> [])"

text \<open>
  \<^verbatim>\<open>a * b\<close>, \<^verbatim>\<open>a + b\<close> and \<^verbatim>\<open>a > b\<close> on numbers: \<open>NaN\<close> propagates through the
  arithmetic, and every comparison with \<open>NaN\<close> is false.
\<close>

fun js_times :: "number \<Rightarrow> number \<Rightarrow> number" where
  "js_times (Some a) (Some b) = Some (a * b)"
| "js_times _ _ = None"

fun js_plus :: "number \<Rightarrow> number \<Rightarrow> number" where
  "js_plus (Some a) (Some b) = Some (a + b)"
| "js_plus _ _ = None"

fun js_greater :: "number \<Rightarrow> number \<Rightarrow> bool" where
  "js_greater (Some a) (Some b) = (a > b)"
| "js_greater _ _ = False"

subsection \<open>\<^verbatim>\<open>String.prototype.includes\<close>\<close>

text \<open>
  \<^verbatim>\<open>s.includes(p)\<close> is true when \<open>p\<close> occurs in \<open>s\<close> at some position: the search
  tries every position of \<open>s\<close> from the left, the end included (the empty string
  occurs everywhere).
\<close>

definition starts_with :: "string \<Rightarrow> string \<Rightarrow> bool" where
  "starts_with s p = (take (length p) s = p)"

fun str_includes :: "string \<Rightarrow> string \<Rightarrow> bool" where
  "str_includes [] p = (p = [])"
| "str_includes (c # cs) p = (starts_with (c # cs) p \<or> str_includes cs p)"

subsection \<open>\<^verbatim>\<open>parseInt\<close>\<close>

text \<open>
  \<^verbatim>\<open>ToString\<close> of a value, for the argument of \<^verbatim>\<open>parseInt\<close>. An integer prints as
  its decimal digits with a leading minus sign when negative (JavaScript switches to
  the exponent notation from \<open>10^21\<close> on, beyond the range of the model).
\<close>

fun digits10 :: "nat \<Rightarrow> string" where
  "digits10 n =
     (if n < 10 then [char_of (48 + n)]
      else digits10 (n div 10) @ [char_of (48 + n mod 10)])"

declare digits10.simps [simp del]

definition number_to_string :: "int \<Rightarrow> string" where
  "number_to_string n =
     (if n < 0 then CHR ''-'' # digits10 (nat (- n)) else digits10 (nat n))"

fun to_string :: "jsval \<Rightarrow> string" where
  "to_string JUndefined = ''undefined''"
| "to_string JNull = ''null''"
| "to_string (JBool b) = (if b then ''true'' else ''false'')"
| "to_string (JNum n) = number_to_string n"
| "to_string (JStr s) = s"

text \<open>
  The white space \<^verbatim>\<open>parseInt\<close> skips, within ASCII: tab, line feed, vertical tab,
  form feed, carriage return and space.
\<close>

definition is_white_space :: "char \<Rightarrow> bool" where
  "is_white_space c = (of_char c \<in> {9, 10, 11, 12, 13, 32 :: nat})"

text \<open>
  The value of a character as a digit of radix \<open>R\<close>: \<open>0-9\<close>, then \<open>a-z\<close> or \<open>A-Z\<close>
  for ten and up; \<open>None\<close> when the character is no digit of that radix.
\<close>

definition digit_of :: "nat \<Rightarrow> char \<Rightarrow> nat option" where
  "digit_of R c =
     (let k = (of_char c :: nat) in
      if 48 \<le> k \<and> k \<le> 57 \<and> k - 48 < R then Some (k - 48)
      else if 97 \<le> k \<and> k \<le> 122 \<and> k - 87 < R then Some (k - 87)
      else if 65 \<le> k \<and> k \<le> 90 \<and> k - 55 < R then Some (k - 55)
      else None)"

text \<open>The digits of the longest prefix of \<open>s\<close> made of digits of radix \<open>R\<close>.\<close>

fun radix_digits :: "nat \<Rightarrow> string \<Rightarrow> nat list" where
  "radix_digits R [] = []"
| "radix_digits R (c # cs) =
     (case digit_of R c of None \<Rightarrow> [] | Some v \<Rightarrow> v # radix_digits R cs)"

definition math_int :: "nat \<Rightarrow> nat list \<Rightarrow> nat" where
  "math_int R ds = foldl (\<lambda>a v. a * R + v) 0 ds"

text \<open>
  \<^verbatim>\<open>parseInt(string)\<close> with no radix argument (ECMAScript, parseInt): convert the
  argument to a string, skip leading white space, read a sign, strip a \<^verbatim>\<open>0x\<close> or
  \<^verbatim>\<open>0X\<close> prefix (then the radix is 16, otherwise 10), and read digits up to the first
  character that is none. No digit at all gives \<open>NaN\<close>.
\<close>

definition parseInt :: "jsval \<Rightarrow> number" where
  "parseInt v =
     (let S = dropWhile is_white_space (to_string v);
          sign = (if starts_with S ''-'' then - 1 else 1 :: int);
          S1 = (if starts_with S ''+'' \<or> starts_with S ''-'' then tl S else S);
          strip = (starts_with S1 ''0x'' \<or> starts_with S1 ''0X'');
          R = (if strip then 16 else 10);
          Z = radix_digits R (if strip then drop 2 S1 else S1)
      in if Z = [] then None else Some (sign * int (math_int R Z)))"

subsection \<open>Errors\<close>

text \<open>
  \<open>Error m\<close> is \<^verbatim>\<open>new Error(m)\<close>. \<open>TypeError\<close> is what the engine throws when a
  property of \<^verbatim>\<open>undefined\<close> is read. \<open>ValidationError\<close> and \<open>PersistenceError\<close>
  are the failures of the entity validator and of the database (section 7 of the
  specification), whose messages are set outside \<^verbatim>\<open>OrderUseCases\<close>.
\<close>

datatype error = Error string | TypeError | ValidationError | PersistenceError

subsection \<open>Orders, payloads and the state\<close>

text \<open>
  An order as the methods read it. \<open>orderStatus\<close> and \<open>rateInSats\<close> are values the
  code inspects dynamically (the truth value of the status, \<^verbatim>\<open>parseInt\<close> of the rate);
  \<open>JUndefined\<close> stands for an absent field. The other fields have the type at which
  the code uses them: \<open>buyOrSell\<close> is a string (\<^verbatim>\<open>includes\<close>), \<open>numTokens\<close> a number.
\<close>

record order =
  p2wdbHash :: string
  utxoTxid :: string
  utxoVout :: int
  buyOrSell :: string
  numTokens :: int
  rateInSats :: jsval
  orderStatus :: jsval

text \<open>
  The argument of \<^verbatim>\<open>createOrder\<close>: the fields of the order under the key \<^verbatim>\<open>data\<close>,
  which may be missing.
\<close>

record payload =
  data :: "order option"

text \<open>
  The calls a method makes to its collaborators, in order. The list is an observation
  of the run, kept in the state next to the documents of the Order collection.
\<close>

datatype call =
    FindOne string
  | Find
  | Save order
  | GetTxOut string int
  | CheckForSufficientFunds string
  | GetBalance
  | GeneratePartialTx order

record world =
  store :: "order list"
  calls :: "call list"

definition called :: "call \<Rightarrow> world \<Rightarrow> world" where
  "called c w = w\<lparr>calls := calls w @ [c]\<rparr>"

text \<open>
  The collaborators, as \<^verbatim>\<open>this.adapters\<close> and \<^verbatim>\<open>this.orderEntity\<close> hold them. Each
  call returns a value or throws. \<open>'u\<close> is the information \<^verbatim>\<open>getTxOut\<close> returns for an
  unspent output; \<open>None\<close> is its \<^verbatim>\<open>null\<close>. \<open>save_error\<close> tells whether the database
  rejects a document (\<^verbatim>\<open>orderModel.save()\<close> throws) or stores it.
\<close>

record 'u order_use_cases =
  getTxOut :: "string \<Rightarrow> int \<Rightarrow> error + 'u option"
  privateKey :: string
  checkForSufficientFunds :: "string \<Rightarrow> error + bool"
  getBalance :: "error + int"
  generatePartialTx :: "order \<Rightarrow> error + string"
  validate :: "payload \<Rightarrow> error + order"
  save_error :: "order \<Rightarrow> error option"

subsection \<open>The Order collection\<close>

text \<open>
  Modelled from the spec: the Mongoose model \<^verbatim>\<open>adapters.localdb.Order\<close> is not among
  the sources. Sections 4.3 and 6 give its contract: \<^verbatim>\<open>save\<close> commits one document and
  enforces no uniqueness, \<^verbatim>\<open>find({})\<close> returns every document, \<^verbatim>\<open>findOne(filter)\<close>
  returns a document that matches or nothing. The collection is the list of its
  documents in the order they were saved; \<open>findOne\<close> returns the first match. The
  identifier and version the database adds to a document are left out.
\<close>

definition findOne :: "order list \<Rightarrow> string \<Rightarrow> order option" where
  "findOne docs h = List.find (\<lambda>d. p2wdbHash d = h) docs"

definition save :: "'u order_use_cases \<Rightarrow> order \<Rightarrow> world \<Rightarrow> (error + unit) \<times> world" where
  "save uc doc w =
     (case save_error uc doc of
        Some err \<Rightarrow> (Inl err, called (Save doc) w)
      | None \<Rightarrow> (Inr (), (called (Save doc) w)\<lparr>store := store w @ [doc]\<rparr>))"

subsection \<open>The methods of \<^verbatim>\<open>OrderUseCases\<close>\<close>

text \<open>
  \<^verbatim>\<open>findOrderByHash(p2wdbHash)\<close>: the argument must be a non-empty string, and the
  collection must hold a document with that hash.
\<close>

definition findOrderByHash :: "jsval \<Rightarrow> world \<Rightarrow> (error + order) \<times> world" where
  "findOrderByHash hash w =
     (if typeof hash \<noteq> ''string'' \<or> \<not> truthy hash
      then (Inl (Error ''p2wdbHash must be a string''), w)
      else
        (let w1 = called (FindOne (to_string hash)) w
         in case findOne (store w) (to_string hash) of
              None \<Rightarrow> (Inl (Error ''order not found''), w1)
            | Some order \<Rightarrow> (Inr order, w1)))"

text \<open>\<^verbatim>\<open>listOrders()\<close>: every document of the collection.\<close>

definition listOrders :: "world \<Rightarrow> (error + order list) \<times> world" where
  "listOrders w = (Inr (store w), called Find w)"

text \<open>
  \<^verbatim>\<open>ensureFunds(orderEntity)\<close>: the funds for writing to the P2WDB, then, for an order
  whose \<^verbatim>\<open>buyOrSell\<close> includes \<^verbatim>\<open>sell\<close>, the balance against the price plus a margin of
  5000 satoshis. The product is computed before the balance is read.
\<close>

definition ensureFunds :: "'u order_use_cases \<Rightarrow> order \<Rightarrow> world \<Rightarrow> (error + bool) \<times> world" where
  "ensureFunds uc orderEntity w =
     (let wif = privateKey uc;
          w1 = called (CheckForSufficientFunds wif) w
      in case checkForSufficientFunds uc wif of
           Inl err \<Rightarrow> (Inl err, w1)
         | Inr canWriteToP2WDB \<Rightarrow>
             if \<not> canWriteToP2WDB
             then (Inl (Error ''App wallet does not have funds for writing to the P2WDB.''), w1)
             else if str_includes (buyOrSell orderEntity) ''sell'' then
               (let satsNeeded =
                      js_times (Some (numTokens orderEntity)) (parseInt (rateInSats orderEntity));
                    w2 = called GetBalance w1
                in case getBalance uc of
                     Inl err \<Rightarrow> (Inl err, w2)
                   | Inr balance \<Rightarrow>
                       (let SATS_MARGIN = 5000
                        in if js_greater (js_plus satsNeeded (Some SATS_MARGIN)) (Some balance)
                           then (Inl (Error
                                  ''App wallet does not control enough BCH to purchase the tokens.''),
                                 w2)
                           else (Inr True, w2)))
             else (Inl (Error ''Buy orders are not supported yet.''), w1))"

text \<open>
  \<^verbatim>\<open>takeOrder(orderCid)\<close>: look the order up, refuse one whose status is set and is
  not \<^verbatim>\<open>posted\<close>, check that its output is unspent, check the funds, and let the wallet
  build the partially signed transaction. The method also reads the wallet's
  \<^verbatim>\<open>utxos.utxoStore\<close>, only to print it; a property read is no call.
\<close>

definition takeOrder :: "'u order_use_cases \<Rightarrow> jsval \<Rightarrow> world \<Rightarrow> (error + string) \<times> world" where
  "takeOrder uc orderCid w =
     (case findOrderByHash orderCid w of
        (Inl err, w1) \<Rightarrow> (Inl err, w1)
      | (Inr orderInfo, w1) \<Rightarrow>
          if truthy (orderStatus orderInfo) \<and> orderStatus orderInfo \<noteq> JStr ''posted''
          then (Inl (Error ''order already taken''), w1)
          else
            (let txid = utxoTxid orderInfo;
                 vout = utxoVout orderInfo;
                 w2 = called (GetTxOut txid vout) w1
             in case getTxOut uc txid vout of
                  Inl err \<Rightarrow> (Inl err, w2)
                | Inr None \<Rightarrow> (Inl (Error ''UTXO does not exist. Aborting.''), w2)
                | Inr (Some utxoStatus) \<Rightarrow>
                    (case ensureFunds uc orderInfo w2 of
                       (Inl err, w3) \<Rightarrow> (Inl err, w3)
                     | (Inr funded, w3) \<Rightarrow>
                         (let w4 = called (GeneratePartialTx orderInfo) w3
                          in case generatePartialTx uc orderInfo of
                               Inl err \<Rightarrow> (Inl err, w4)
                             | Inr partialTxHex \<Rightarrow> (Inr partialTxHex, w4)))))"

text \<open>
  \<^verbatim>\<open>createOrder(orderObj)\<close>. The method assigns to \<^verbatim>\<open>orderObj.data.orderStatus\<close>, so
  the object the caller passed is part of the state: the second component of the
  result is that object as the caller finds it after the call (\<open>orderObj'\<close> is the
  object after the assignment; the validator receives it and, being pure, leaves it as
  it is).
\<close>

definition createOrder ::
  "'u order_use_cases \<Rightarrow> payload \<Rightarrow> world \<Rightarrow> (error + bool) \<times> payload \<times> world" where
  "createOrder uc orderObj w =
     (case data orderObj of
        None \<Rightarrow> (Inl TypeError, orderObj, w)
      | Some d \<Rightarrow>
          (let txid = utxoTxid d;
               vout = utxoVout d;
               w1 = called (GetTxOut txid vout) w
           in case getTxOut uc txid vout of
                Inl err \<Rightarrow> (Inl err, orderObj, w1)
              | Inr None \<Rightarrow> (Inr False, orderObj, w1)
              | Inr (Some utxoStatus) \<Rightarrow>
                  (let orderObj' = orderObj\<lparr>data := Some (d\<lparr>orderStatus := JStr ''posted''\<rparr>)\<rparr>
                   in case validate uc orderObj' of
                        Inl err \<Rightarrow> (Inl err, orderObj', w1)
                      | Inr orderEntity \<Rightarrow>
                          (case save uc orderEntity w1 of
                             (Inl err, w2) \<Rightarrow> (Inl err, orderObj', w2)
                           | (Inr saved, w2) \<Rightarrow> (Inr True, orderObj', w2)))))"

subsection \<open>The entity validator\<close>

text \<open>
  Modelled from the spec: the order entity (\<^verbatim>\<open>src/entities/order\<close>) is not among the
  sources. Section 4.1: \<^verbatim>\<open>validate(raw)\<close> returns the order or fails with a validation
  error; it enforces the presence and type of the fields of section 3 (a hash and a
  transaction identifier, a positive number of tokens, a positive rate, a status that
  is \<^verbatim>\<open>posted\<close> or \<^verbatim>\<open>taken\<close>), rejects a \<^verbatim>\<open>buyOrSell\<close> that is neither \<^verbatim>\<open>sell\<close> nor
  \<^verbatim>\<open>buy\<close>, and normalises the rate to a number. It is pure.
\<close>

definition validate_spec :: "payload \<Rightarrow> error + order" where
  "validate_spec raw =
     (case data raw of
        None \<Rightarrow> Inl ValidationError
      | Some d \<Rightarrow>
          (case parseInt (rateInSats d) of
             None \<Rightarrow> Inl ValidationError
           | Some rate \<Rightarrow>
               if p2wdbHash d \<noteq> [] \<and> utxoTxid d \<noteq> [] \<and> 0 < numTokens d \<and> 0 < rate
                  \<and> (buyOrSell d = ''sell'' \<or> buyOrSell d = ''buy'')
                  \<and> (orderStatus d = JStr ''posted'' \<or> orderStatus d = JStr ''taken'')
               then Inr (d\<lparr>rateInSats := JNum rate\<rparr>)
               else Inl ValidationError))"

subsection \<open>Auxiliary notions of the properties\<close>

text \<open>A decimal digit.\<close>

definition is_digit10 :: "char \<Rightarrow> bool" where
  "is_digit10 c = (48 \<le> (of_char c :: nat) \<and> (of_char c :: nat) \<le> 57)"

text \<open>
  The calls that look an order up, query the oracle, read the funds or build the partial
  transaction. Saving a document and listing the collection are the others.
\<close>

fun takeOrder_call :: "call \<Rightarrow> bool" where
  "takeOrder_call (FindOne h) = True"
| "takeOrder_call (GetTxOut txid vout) = True"
| "takeOrder_call (CheckForSufficientFunds wif) = True"
| "takeOrder_call GetBalance = True"
| "takeOrder_call (GeneratePartialTx orderInfo) = True"
| "takeOrder_call (Save doc) = False"
| "takeOrder_call Find = False"

subsection \<open>The scenario of section 8\<close>

text \<open>
  The order of the specification's scenario (ten tokens at 100 satoshis each, backed by
  output 0 of transaction \<^verbatim>\<open>abc\<close>), a payload carrying it, and collaborators that
  report the output unspent, a wallet holding 10000 satoshis and a database that
  accepts every document.
\<close>

definition scenario_order :: order where
  "scenario_order =
     \<lparr>p2wdbHash = ''zdpuAt'', utxoTxid = ''abc'', utxoVout = 0, buyOrSell = ''sell'',
      numTokens = 10, rateInSats = JStr ''100'', orderStatus = JUndefined\<rparr>"

definition scenario_payload :: payload where
  "scenario_payload = \<lparr>data = Some scenario_order\<rparr>"

definition scenario_adapters :: "unit order_use_cases" where
  "scenario_adapters =
     \<lparr>getTxOut = (\<lambda>txid vout. Inr (Some ())),
      privateKey = ''wif'',
      checkForSufficientFunds = (\<lambda>wif. Inr True),
      getBalance = Inr 10000,
      generatePartialTx = (\<lambda>orderInfo. Inr ''0200''),
      validate = validate_spec,
      save_error = (\<lambda>doc. None)\<rparr>"

definition empty_world :: world where
  "empty_world = \<lparr>store = [], calls = []\<rparr>"

text \<open>
  The scenario's order as the validator returns it for a new payload (status \<^verbatim>\<open>posted\<close>,
  the rate a number), and the same order once taken or with an empty status.
\<close>

definition posted_order :: order where
  "posted_order = scenario_order\<lparr>rateInSats := JNum 100, orderStatus := JStr ''posted''\<rparr>"

definition taken_order :: order where
  "taken_order = posted_order\<lparr>orderStatus := JStr ''taken''\<rparr>"

definition blank_status_order :: order where
  "blank_status_order = posted_order\<lparr>orderStatus := JStr []\<rparr>"

text \<open>Orders that differ from the scenario's in \<^verbatim>\<open>buyOrSell\<close> only.\<close>

definition buy_order :: order where
  "buy_order = scenario_order\<lparr>buyOrSell := ''buy''\<rparr>"

definition buysell_order :: order where
  "buysell_order = scenario_order\<lparr>buyOrSell := ''buysell''\<rparr>"

definition hold_order :: order where
  "hold_order = scenario_order\<lparr>buyOrSell := ''hold''\<rparr>"

text \<open>A payload without a rate, which the validator rejects.\<close>

definition unpriced_payload :: payload where
  "unpriced_payload = \<lparr>data = Some (scenario_order\<lparr>rateInSats := JUndefined\<rparr>)\<rparr>"

text \<open>Collaborators of the scenario whose oracle reports every output spent.\<close>

definition spent_adapters :: "unit order_use_cases" where
  "spent_adapters = scenario_adapters\<lparr>getTxOut := (\<lambda>txid vout. Inr None)\<rparr>"

section \<open>Properties\<close>

subsection \<open>\<^verbatim>\<open>includes\<close> is the occurrence of a substring\<close>

lemma str_includes_iff: "str_includes s p \<longleftrightarrow> (\<exists>a b. s = a @ p @ b)"
proof (induction s)
  case Nil
  then show ?case by auto
next
  case (Cons c cs)
  have sw: "starts_with (c # cs) p \<longleftrightarrow> (\<exists>b. c # cs = p @ b)"
    unfolding starts_with_def
    by (metis append_eq_conv_conj)
  show ?case
  proof
    assume "str_includes (c # cs) p"
    then consider "starts_with (c # cs) p" | "str_includes cs p" by auto
    then show "\<exists>a b. c # cs = a @ p @ b"
    proof cases
      case 1
      then obtain b where "c # cs = p @ b" using sw by blast
      then have "c # cs = [] @ p @ b" by simp
      then show ?thesis by blast
    next
      case 2
      then obtain a b where "cs = a @ p @ b" using Cons.IH by blast
      then have "c # cs = (c # a) @ p @ b" by simp
      then show ?thesis by blast
    qed
  next
    assume "\<exists>a b. c # cs = a @ p @ b"
    then obtain a b where ab: "c # cs = a @ p @ b" by blast
    show "str_includes (c # cs) p"
    proof (cases a)
      case Nil
      with ab have "starts_with (c # cs) p" using sw by auto
      then show ?thesis by simp
    next
      case (Cons x a')
      with ab have "cs = a' @ p @ b" by simp
      then have "str_includes cs p" using Cons.IH by blast
      then show ?thesis by simp
    qed
  qed
qed

subsection \<open>\<^verbatim>\<open>parseInt\<close> reads back the decimal digits of an integer\<close>

lemma digit_of_digit: "d < 10 \<Longrightarrow> digit_of 10 (char_of (48 + d)) = Some d"
  by (simp add: digit_of_def Let_def)

lemma digits10_all: "list_all is_digit10 (digits10 n)"
proof (induction n rule: digits10.induct)
  case (1 n)
  show ?case
  proof (cases "n < 10")
    case True
    then show ?thesis by (subst digits10.simps) (simp add: is_digit10_def)
  next
    case False
    have "n mod 10 < 10" by simp
    then have "is_digit10 (char_of (48 + n mod 10))"
      unfolding is_digit10_def by simp
    with False 1 show ?thesis by (subst digits10.simps) simp
  qed
qed

lemma digits10_nonempty: "digits10 n \<noteq> []"
  by (subst digits10.simps) simp

lemma radix_digits_append:
  "list_all is_digit10 xs \<Longrightarrow> radix_digits 10 (xs @ ys) = radix_digits 10 xs @ radix_digits 10 ys"
  by (induction xs) (auto simp: is_digit10_def digit_of_def Let_def)

lemma radix_digits_digits10:
  "radix_digits 10 (digits10 n) \<noteq> [] \<and> math_int 10 (radix_digits 10 (digits10 n)) = n"
proof (induction n rule: digits10.induct)
  case (1 n)
  show ?case
  proof (cases "n < 10")
    case True
    then show ?thesis
      by (subst (1 2) digits10.simps) (simp add: digit_of_digit math_int_def)
  next
    case False
    then have IH: "math_int 10 (radix_digits 10 (digits10 (n div 10))) = n div 10"
      using 1 by simp
    have d: "digit_of 10 (char_of (48 + n mod 10)) = Some (n mod 10)"
      by (rule digit_of_digit) simp
    have eq: "digits10 n = digits10 (n div 10) @ [char_of (48 + n mod 10)]"
      using False by (subst digits10.simps) simp
    have "radix_digits 10 (digits10 n) = radix_digits 10 (digits10 (n div 10)) @ [n mod 10]"
      unfolding eq using digits10_all d by (simp add: radix_digits_append)
    then show ?thesis using IH by (simp add: math_int_def)
  qed
qed

lemma no_prefix:
  assumes "list_all is_digit10 s" "s \<noteq> []"
  shows "dropWhile is_white_space s = s" "\<not> starts_with s ''-''" "\<not> starts_with s ''+''"
    "\<not> starts_with s ''0x''" "\<not> starts_with s ''0X''"
proof -
  obtain c cs where s: "s = c # cs" using assms(2) by (cases s) auto
  then have c: "is_digit10 c" and cs: "list_all is_digit10 cs" using assms(1) by auto
  show "dropWhile is_white_space s = s"
    using c by (auto simp: s is_white_space_def is_digit10_def)
  show "\<not> starts_with s ''-''" "\<not> starts_with s ''+''"
    using c by (auto simp: s starts_with_def is_digit10_def)
  show "\<not> starts_with s ''0x''" "\<not> starts_with s ''0X''"
    using cs by (cases cs; auto simp: s starts_with_def is_digit10_def)+
qed

lemma parseInt_digits10: "parseInt (JStr (digits10 n)) = Some (int n)"
  using no_prefix [OF digits10_all digits10_nonempty, of n] radix_digits_digits10 [of n]
  by (simp add: parseInt_def Let_def)

lemma parseInt_number_to_string: "parseInt (JStr (number_to_string r)) = Some r"
proof (cases "r < 0")
  case False
  then show ?thesis by (simp add: number_to_string_def parseInt_digits10)
next
  case True
  have "\<not> is_white_space CHR ''-''" by (simp add: is_white_space_def)
  moreover have "starts_with (CHR ''-'' # digits10 (nat (- r))) ''-''"
    by (simp add: starts_with_def)
  ultimately show ?thesis
    using True no_prefix [OF digits10_all digits10_nonempty, of "nat (- r)"]
      radix_digits_digits10 [of "nat (- r)"]
    by (simp add: number_to_string_def parseInt_def Let_def)
qed

lemma parseInt_JNum: "parseInt (JNum r) = Some r"
  using parseInt_number_to_string [of r] by (simp add: parseInt_def)

subsection \<open>Evaluations shared by the examples\<close>

lemma parseInt_100: "parseInt (JStr ''100'') = Some 100"
  by (simp add: parseInt_def Let_def starts_with_def is_white_space_def digit_of_def
      math_int_def)

lemma validate_scenario:
  "validate_spec
     (scenario_payload\<lparr>data := Some (scenario_order\<lparr>orderStatus := JStr ''posted''\<rparr>)\<rparr>)
     = Inr posted_order"
  by (simp add: validate_spec_def scenario_order_def posted_order_def parseInt_100)

lemma createOrder_scenario:
  "createOrder scenario_adapters scenario_payload w =
     (Inr True,
      \<lparr>data = Some (scenario_order\<lparr>orderStatus := JStr ''posted''\<rparr>)\<rparr>,
      \<lparr>store = store w @ [posted_order],
       calls = calls w @ [GetTxOut ''abc'' 0, Save posted_order]\<rparr>)"
  using validate_scenario
  by (simp add: createOrder_def save_def Let_def called_def scenario_adapters_def
      scenario_payload_def scenario_order_def)

subsection \<open>Lookup by hash\<close>

lemma findOrderByHash_found:
  "h \<noteq> [] \<Longrightarrow> findOne (store w) h = Some orderInfo \<Longrightarrow>
   findOrderByHash (JStr h) w = (Inr orderInfo, called (FindOne h) w)"
  by (simp add: findOrderByHash_def Let_def)

lemma findOne_append_new:
  "findOne docs (p2wdbHash doc) = None \<Longrightarrow> findOne (docs @ [doc]) (p2wdbHash doc) = Some doc"
  by (induction docs) (auto simp: findOne_def)

subsection \<open>Taking an order that is not posted\<close>

text \<open>
  C1, as amended. Let the collection return \<open>orderInfo\<close> for the non-empty hash \<open>h\<close>.
  If the status of \<open>orderInfo\<close> is truthy (for a string: not empty) and is not
  \<^verbatim>\<open>posted\<close>, in particular if it is \<^verbatim>\<open>taken\<close>, then \<^verbatim>\<open>takeOrder(h)\<close> throws
  \<^verbatim>\<open>Error('order already taken')\<close>, and the lookup is the only call it has made: the
  oracle and the wallet are not reached.
\<close>

theorem takeOrder_rejects_taken:
  assumes "h \<noteq> []"
    and "findOne (store w) h = Some orderInfo"
    and "truthy (orderStatus orderInfo)"
    and "orderStatus orderInfo \<noteq> JStr ''posted''"
  shows "takeOrder uc (JStr h) w = (Inl (Error ''order already taken''), called (FindOne h) w)"
  using assms by (simp add: takeOrder_def findOrderByHash_found)

text \<open>The theorem at the scenario's order once taken.\<close>

theorem takeOrder_rejects_taken_witness:
  "takeOrder scenario_adapters (JStr ''zdpuAt'') \<lparr>store = [taken_order], calls = []\<rparr>
     = (Inl (Error ''order already taken''),
        \<lparr>store = [taken_order], calls = [FindOne ''zdpuAt'']\<rparr>)"
  using takeOrder_rejects_taken [of "''zdpuAt''" "\<lparr>store = [taken_order], calls = []\<rparr>"
      taken_order scenario_adapters]
  by (simp add: findOne_def taken_order_def posted_order_def scenario_order_def called_def)

text \<open>
  C1 as stated fails for a status that is present but falsy. The persisted order below
  has the empty string as its status: the field is present and differs from
  \<^verbatim>\<open>posted\<close>, yet the guard \<^verbatim>\<open>orderInfo.orderStatus && ...\<close> lets it pass, and
  \<^verbatim>\<open>takeOrder\<close> queries the oracle, checks the funds and returns the partial
  transaction.
\<close>

theorem takeOrder_blank_status_counterexample:
  "orderStatus blank_status_order \<noteq> JUndefined
   \<and> orderStatus blank_status_order \<noteq> JStr ''posted''
   \<and> findOne [blank_status_order] ''zdpuAt'' = Some blank_status_order
   \<and> takeOrder scenario_adapters (JStr ''zdpuAt'') \<lparr>store = [blank_status_order], calls = []\<rparr>
       = (Inr ''0200'',
          \<lparr>store = [blank_status_order],
           calls = [FindOne ''zdpuAt'', GetTxOut ''abc'' 0, CheckForSufficientFunds ''wif'',
                    GetBalance, GeneratePartialTx blank_status_order]\<rparr>)"
  by (simp add: takeOrder_def findOrderByHash_def findOne_def ensureFunds_def called_def
      blank_status_order_def posted_order_def scenario_order_def scenario_adapters_def Let_def
      starts_with_def parseInt_JNum)

subsection \<open>The solvency check of a sell order\<close>




subsection \<open>Creating an order\<close>

text \<open>
  C3. If the oracle returns \<^verbatim>\<open>null\<close> for the output of the payload, \<^verbatim>\<open>createOrder\<close>
  returns \<^verbatim>\<open>false\<close> and throws nothing, the collection is as it was, and the query of
  the oracle is the only call made: nothing is saved.
\<close>

theorem createOrder_spent_utxo:
  assumes "data orderObj = Some d"
    and "getTxOut uc (utxoTxid d) (utxoVout d) = Inr None"
  shows "fst (createOrder uc orderObj w) = Inr False
       \<and> store (snd (snd (createOrder uc orderObj w))) = store w
       \<and> calls (snd (snd (createOrder uc orderObj w)))
           = calls w @ [GetTxOut (utxoTxid d) (utxoVout d)]"
  using assms by (simp add: createOrder_def Let_def called_def)

text \<open>The theorem at the scenario's payload with a spent output.\<close>

theorem createOrder_spent_utxo_witness:
  "fst (createOrder spent_adapters scenario_payload empty_world) = Inr False
   \<and> store (snd (snd (createOrder spent_adapters scenario_payload empty_world))) = []
   \<and> calls (snd (snd (createOrder spent_adapters scenario_payload empty_world)))
       = [GetTxOut ''abc'' 0]"
  using createOrder_spent_utxo [of scenario_payload scenario_order spent_adapters empty_world]
  by (simp add: scenario_payload_def scenario_order_def empty_world_def spent_adapters_def)

lemma validate_spec_keeps_status:
  "validate_spec raw = Inr orderEntity \<Longrightarrow> data raw = Some d \<Longrightarrow>
   orderStatus orderEntity = orderStatus d"
  by (auto simp: validate_spec_def split: option.splits if_splits)

text \<open>
  C4. Let the oracle report the output of the payload unspent, let the validator (the one
  of section 4.1) accept the payload as \<^verbatim>\<open>createOrder\<close> hands it over, returning
  \<open>orderEntity\<close>, and let the database store that document. Then \<^verbatim>\<open>createOrder\<close>
  returns \<^verbatim>\<open>true\<close>, the collection has grown by exactly the one document
  \<open>orderEntity\<close>, and the status of that document is \<^verbatim>\<open>posted\<close>.
\<close>

theorem createOrder_live_utxo:
  assumes "data orderObj = Some d"
    and "getTxOut uc (utxoTxid d) (utxoVout d) = Inr (Some utxoStatus)"
    and "validate uc = validate_spec"
    and "validate_spec (orderObj\<lparr>data := Some (d\<lparr>orderStatus := JStr ''posted''\<rparr>)\<rparr>)
           = Inr orderEntity"
    and "save_error uc orderEntity = None"
  shows "fst (createOrder uc orderObj w) = Inr True
       \<and> store (snd (snd (createOrder uc orderObj w))) = store w @ [orderEntity]
       \<and> orderStatus orderEntity = JStr ''posted''"
  using assms validate_spec_keeps_status [OF assms(4)]
  by (simp add: createOrder_def save_def Let_def called_def)

text \<open>The theorem at the scenario of section 8.\<close>

theorem createOrder_live_utxo_witness:
  "fst (createOrder scenario_adapters scenario_payload empty_world) = Inr True
   \<and> store (snd (snd (createOrder scenario_adapters scenario_payload empty_world)))
       = [posted_order]
   \<and> orderStatus posted_order = JStr ''posted''"
  using createOrder_live_utxo [of scenario_payload scenario_order scenario_adapters "()"
      posted_order empty_world] validate_scenario
  by (simp add: scenario_payload_def scenario_adapters_def empty_world_def)

subsection \<open>\<^verbatim>\<open>takeOrder\<close> writes nothing\<close>

lemma findOrderByHash_frame:
  "store (snd (findOrderByHash hash w)) = store w
   \<and> (\<exists>cs. calls (snd (findOrderByHash hash w)) = calls w @ cs \<and> list_all takeOrder_call cs)"
  by (simp add: findOrderByHash_def Let_def called_def split: option.splits)

lemma ensureFunds_frame:
  "store (snd (ensureFunds uc orderEntity w)) = store w
   \<and> (\<exists>cs. calls (snd (ensureFunds uc orderEntity w)) = calls w @ cs
         \<and> list_all takeOrder_call cs)"
  by (simp add: ensureFunds_def Let_def called_def split: sum.splits)

text \<open>
  C5. Whatever the argument, the collaborators and the state, and whether it returns or
  throws, \<^verbatim>\<open>takeOrder\<close> leaves the Order collection as it was: no status changes, none
  becomes \<^verbatim>\<open>taken\<close>. The calls it makes are lookups, the query of the oracle, the two
  solvency reads and the construction of the partial transaction; it saves nothing and
  sends nothing.
\<close>

theorem takeOrder_never_writes:
  "store (snd (takeOrder uc orderCid w)) = store w
   \<and> (\<exists>cs. calls (snd (takeOrder uc orderCid w)) = calls w @ cs \<and> list_all takeOrder_call cs)"
proof (cases "findOrderByHash orderCid w")
  case (Pair r w1)
  from findOrderByHash_frame [of orderCid w] Pair
  obtain cs1 where w1: "store w1 = store w" "calls w1 = calls w @ cs1"
    "list_all takeOrder_call cs1"
    by auto
  show ?thesis
  proof (cases r)
    case (Inl err)
    with Pair w1 show ?thesis by (simp add: takeOrder_def)
  next
    case (Inr orderInfo)
    let ?w2 = "called (GetTxOut (utxoTxid orderInfo) (utxoVout orderInfo)) w1"
    have w2: "store ?w2 = store w"
      "calls ?w2 = calls w @ (cs1 @ [GetTxOut (utxoTxid orderInfo) (utxoVout orderInfo)])"
      using w1 by (simp_all add: called_def)
    obtain r3 w3 where e: "ensureFunds uc orderInfo ?w2 = (r3, w3)"
      by (cases "ensureFunds uc orderInfo ?w2")
    from ensureFunds_frame [of uc orderInfo ?w2] e
    obtain cs3 where w3: "store w3 = store w"
      "calls w3 = calls w @ (cs1 @ [GetTxOut (utxoTxid orderInfo) (utxoVout orderInfo)] @ cs3)"
      "list_all takeOrder_call cs3"
      using w2 by auto
    show ?thesis
      using Pair Inr w1 w2 w3 e
      by (auto simp: takeOrder_def Let_def called_def split: sum.splits option.splits)
  qed
qed

subsection \<open>The solvency check of a buy order\<close>

lemma buy_order_buy:
  "str_includes (buyOrSell buy_order) ''buy'' \<and> \<not> str_includes (buyOrSell buy_order) ''sell''"
  by (simp add: buy_order_def scenario_order_def starts_with_def)

text \<open>
  C6, as amended. Let \<^verbatim>\<open>buyOrSell\<close> include \<^verbatim>\<open>buy\<close> and not \<^verbatim>\<open>sell\<close>, and let the
  P2WDB funds check pass. Then \<^verbatim>\<open>ensureFunds\<close> throws
  \<^verbatim>\<open>Error('Buy orders are not supported yet.')\<close> whatever the balance of the wallet,
  which it does not read.
\<close>

theorem ensureFunds_buy_unsupported:
  assumes "str_includes (buyOrSell orderEntity) ''buy''"
    and "\<not> str_includes (buyOrSell orderEntity) ''sell''"
    and "checkForSufficientFunds uc (privateKey uc) = Inr True"
  shows "ensureFunds uc orderEntity w =
           (Inl (Error ''Buy orders are not supported yet.''),
            called (CheckForSufficientFunds (privateKey uc)) w)"
  using assms by (simp add: ensureFunds_def Let_def)

text \<open>The theorem at a buy order, with a balance of 10000 and with an empty wallet.\<close>

theorem ensureFunds_buy_unsupported_witness:
  "ensureFunds scenario_adapters buy_order empty_world =
     (Inl (Error ''Buy orders are not supported yet.''),
      \<lparr>store = [], calls = [CheckForSufficientFunds ''wif'']\<rparr>)
   \<and> ensureFunds (scenario_adapters\<lparr>getBalance := Inr 0\<rparr>) buy_order empty_world =
     (Inl (Error ''Buy orders are not supported yet.''),
      \<lparr>store = [], calls = [CheckForSufficientFunds ''wif'']\<rparr>)"
  using ensureFunds_buy_unsupported [of buy_order scenario_adapters empty_world]
    ensureFunds_buy_unsupported [of buy_order "scenario_adapters\<lparr>getBalance := Inr 0\<rparr>"
      empty_world]
    buy_order_buy
  by (simp add: scenario_adapters_def empty_world_def called_def)

text \<open>
  C6 as stated fails when the wallet cannot pay for a write to the P2WDB: that check
  comes first, and a buy order then fails with its error, not with the one for buy
  orders.
\<close>

theorem ensureFunds_buy_counterexample:
  "str_includes (buyOrSell buy_order) ''buy''
   \<and> \<not> str_includes (buyOrSell buy_order) ''sell''
   \<and> fst (ensureFunds (scenario_adapters\<lparr>checkForSufficientFunds := (\<lambda>wif. Inr False)\<rparr>)
            buy_order empty_world)
       = Inl (Error ''App wallet does not have funds for writing to the P2WDB.'')"
  using buy_order_buy by (simp add: ensureFunds_def scenario_adapters_def Let_def)

subsection \<open>Taking an order whose output is spent\<close>

text \<open>
  C7, as amended. Let the collection return \<open>orderInfo\<close> for the non-empty hash \<open>h\<close>,
  let its status be \<^verbatim>\<open>posted\<close>, and let the oracle return \<^verbatim>\<open>null\<close> for its output. Then
  \<^verbatim>\<open>takeOrder(h)\<close> throws \<^verbatim>\<open>Error('UTXO does not exist. Aborting.')\<close>, and the
  lookup and the query of the oracle are the only calls made: neither the solvency
  check nor the construction of the partial transaction is reached.
\<close>

theorem takeOrder_spent_utxo:
  assumes "h \<noteq> []"
    and "findOne (store w) h = Some orderInfo"
    and "orderStatus orderInfo = JStr ''posted''"
    and "getTxOut uc (utxoTxid orderInfo) (utxoVout orderInfo) = Inr None"
  shows "takeOrder uc (JStr h) w =
           (Inl (Error ''UTXO does not exist. Aborting.''),
            called (GetTxOut (utxoTxid orderInfo) (utxoVout orderInfo)) (called (FindOne h) w))"
  using assms by (simp add: takeOrder_def findOrderByHash_found Let_def)

text \<open>The theorem at the scenario's posted order, its output spent.\<close>

theorem takeOrder_spent_utxo_witness:
  "takeOrder spent_adapters (JStr ''zdpuAt'') \<lparr>store = [posted_order], calls = []\<rparr>
     = (Inl (Error ''UTXO does not exist. Aborting.''),
        \<lparr>store = [posted_order], calls = [FindOne ''zdpuAt'', GetTxOut ''abc'' 0]\<rparr>)"
  using takeOrder_spent_utxo [of "''zdpuAt''" "\<lparr>store = [posted_order], calls = []\<rparr>"
      posted_order spent_adapters]
  by (simp add: findOne_def posted_order_def scenario_order_def called_def spent_adapters_def)

text \<open>
  C7 as stated gives the message as \<^verbatim>\<open>UTXO does not exist\<close>. The error thrown for
  the scenario's posted order with a spent output carries the longer message, and is
  not the error with the message of the claim.
\<close>

theorem takeOrder_spent_utxo_counterexample:
  "findOne [posted_order] ''zdpuAt'' = Some posted_order
   \<and> orderStatus posted_order = JStr ''posted''
   \<and> getTxOut spent_adapters (utxoTxid posted_order) (utxoVout posted_order) = Inr None
   \<and> fst (takeOrder spent_adapters (JStr ''zdpuAt'') \<lparr>store = [posted_order], calls = []\<rparr>)
       = Inl (Error ''UTXO does not exist. Aborting.'')
   \<and> fst (takeOrder spent_adapters (JStr ''zdpuAt'') \<lparr>store = [posted_order], calls = []\<rparr>)
       \<noteq> Inl (Error ''UTXO does not exist'')"
  by (simp add: takeOrder_def findOrderByHash_def findOne_def called_def Let_def
      posted_order_def scenario_order_def spent_adapters_def)

subsection \<open>Saving an order and finding it again\<close>

lemma createOrder_success_store:
  assumes "fst (createOrder uc orderObj w) = Inr True"
  shows "\<exists>orderEntity. store (snd (snd (createOrder uc orderObj w))) = store w @ [orderEntity]"
  using assms
  by (auto simp: createOrder_def save_def Let_def called_def
      split: option.splits sum.splits)

text \<open>
  C8, as amended. Let \<^verbatim>\<open>createOrder\<close> return \<^verbatim>\<open>true\<close>, let \<open>saved\<close> be the document it
  has added to the collection, let the hash of \<open>saved\<close> be a non-empty string, and
  let the collection have held no document with that hash before the call. Then
  \<^verbatim>\<open>findOrderByHash\<close> on that hash returns \<open>saved\<close>: every field is as it was saved.
\<close>

theorem createOrder_findOrderByHash_roundtrip:
  assumes "fst (createOrder uc orderObj w) = Inr True"
    and "w' = snd (snd (createOrder uc orderObj w))"
    and "saved = last (store w')"
    and "p2wdbHash saved \<noteq> []"
    and "findOne (store w) (p2wdbHash saved) = None"
  shows "store w' = store w @ [saved]
       \<and> fst (findOrderByHash (JStr (p2wdbHash saved)) w') = Inr saved"
proof -
  from createOrder_success_store [OF assms(1)] assms(2,3)
  have st: "store w' = store w @ [saved]" by auto
  have "findOne (store w') (p2wdbHash saved) = Some saved"
    unfolding st using assms(5) by (rule findOne_append_new)
  then show ?thesis
    using st assms(4) by (simp add: findOrderByHash_def Let_def)
qed

text \<open>The theorem at the scenario of section 8, the collection empty before the call.\<close>

theorem createOrder_findOrderByHash_roundtrip_witness:
  "fst (createOrder scenario_adapters scenario_payload empty_world) = Inr True
   \<and> store (snd (snd (createOrder scenario_adapters scenario_payload empty_world)))
       = [posted_order]
   \<and> fst (findOrderByHash (JStr ''zdpuAt'')
            (snd (snd (createOrder scenario_adapters scenario_payload empty_world))))
       = Inr posted_order"
  using createOrder_findOrderByHash_roundtrip [of scenario_adapters scenario_payload empty_world
      "snd (snd (createOrder scenario_adapters scenario_payload empty_world))" posted_order]
  by (simp add: createOrder_scenario empty_world_def findOne_def)
    (simp add: posted_order_def scenario_order_def)

text \<open>
  C8 as stated fails when the collection already holds a document with the same hash:
  \<^verbatim>\<open>createOrder\<close> checks no uniqueness and saves a second one, and the lookup returns
  the first. Here the collection holds the scenario's order in state \<^verbatim>\<open>taken\<close>; the
  payload of the same hash is saved with status \<^verbatim>\<open>posted\<close>, and the lookup returns
  the order whose status is \<^verbatim>\<open>taken\<close>.
\<close>

theorem createOrder_findOrderByHash_counterexample:
  "fst (createOrder scenario_adapters scenario_payload \<lparr>store = [taken_order], calls = []\<rparr>)
     = Inr True
   \<and> store (snd (snd (createOrder scenario_adapters scenario_payload
                        \<lparr>store = [taken_order], calls = []\<rparr>)))
       = [taken_order, posted_order]
   \<and> p2wdbHash posted_order = ''zdpuAt''
   \<and> fst (findOrderByHash (JStr ''zdpuAt'')
            (snd (snd (createOrder scenario_adapters scenario_payload
                        \<lparr>store = [taken_order], calls = []\<rparr>))))
       = Inr taken_order
   \<and> orderStatus taken_order = JStr ''taken''
   \<and> orderStatus posted_order = JStr ''posted''"
  by (simp add: createOrder_scenario findOrderByHash_def findOne_def Let_def
      taken_order_def posted_order_def scenario_order_def)

subsection \<open>\<^verbatim>\<open>ensureFunds\<close> dispatches on a substring\<close>

text \<open>
  C9. Let the P2WDB funds check pass. If \<^verbatim>\<open>sell\<close> occurs anywhere in \<^verbatim>\<open>buyOrSell\<close>,
  \<^verbatim>\<open>ensureFunds\<close> takes the sell side: it reads the balance and compares it with the
  price plus the margin. If \<^verbatim>\<open>sell\<close> does not occur in it, whatever the string is,
  \<^verbatim>\<open>ensureFunds\<close> throws the error for buy orders and does not read the balance.
\<close>

theorem ensureFunds_dispatch_on_substring:
  assumes "checkForSufficientFunds uc (privateKey uc) = Inr True"
  shows "ensureFunds uc orderEntity w =
          (if \<exists>a b. buyOrSell orderEntity = a @ ''sell'' @ b
           then (case getBalance uc of
                   Inl err \<Rightarrow> Inl err
                 | Inr balance \<Rightarrow>
                     if js_greater
                          (js_plus (js_times (Some (numTokens orderEntity))
                                      (parseInt (rateInSats orderEntity))) (Some 5000))
                          (Some balance)
                     then Inl (Error
                            ''App wallet does not control enough BCH to purchase the tokens.'')
                     else Inr True,
                 called GetBalance (called (CheckForSufficientFunds (privateKey uc)) w))
           else (Inl (Error ''Buy orders are not supported yet.''),
                 called (CheckForSufficientFunds (privateKey uc)) w))"
proof -
  have iff: "(\<exists>a b. buyOrSell orderEntity = a @ ''sell'' @ b)
      = str_includes (buyOrSell orderEntity) ''sell''"
    by (rule str_includes_iff [symmetric])
  show ?thesis
    unfolding iff using assms
    by (simp add: ensureFunds_def Let_def split: sum.splits)
qed

text \<open>
  The theorem at \<^verbatim>\<open>buysell\<close>, which takes the sell side and passes, and at \<^verbatim>\<open>hold\<close>,
  which is refused as a buy order.
\<close>

theorem ensureFunds_dispatch_on_substring_witness:
  "ensureFunds scenario_adapters buysell_order empty_world =
     (Inr True, \<lparr>store = [], calls = [CheckForSufficientFunds ''wif'', GetBalance]\<rparr>)
   \<and> ensureFunds scenario_adapters hold_order empty_world =
     (Inl (Error ''Buy orders are not supported yet.''),
      \<lparr>store = [], calls = [CheckForSufficientFunds ''wif'']\<rparr>)"
proof -
  have a: "checkForSufficientFunds scenario_adapters (privateKey scenario_adapters) = Inr True"
    by (simp add: scenario_adapters_def)
  have s1: "\<exists>a b. buyOrSell buysell_order = a @ ''sell'' @ b"
    unfolding str_includes_iff [symmetric]
    by (simp add: buysell_order_def scenario_order_def starts_with_def)
  have s2: "\<not> (\<exists>a b. buyOrSell hold_order = a @ ''sell'' @ b)"
    unfolding str_includes_iff [symmetric]
    by (simp add: hold_order_def scenario_order_def starts_with_def)
  have r: "parseInt (rateInSats buysell_order) = Some 100"
    by (simp add: buysell_order_def scenario_order_def parseInt_100)
  show ?thesis
    using ensureFunds_dispatch_on_substring [OF a, of buysell_order empty_world]
      ensureFunds_dispatch_on_substring [OF a, of hold_order empty_world] s1 s2 r
    by (simp add: scenario_adapters_def empty_world_def called_def buysell_order_def
        scenario_order_def)
qed

subsection \<open>\<^verbatim>\<open>createOrder\<close> assigns to its argument\<close>

text \<open>
  C10. Let the oracle return \<open>utxoStatus\<close> for the output of the payload. If it is
  \<^verbatim>\<open>null\<close>, the object the caller passed is unchanged after the call. Otherwise its
  \<^verbatim>\<open>data.orderStatus\<close> is \<^verbatim>\<open>posted\<close> after the call, whatever the validator and the
  database do next; the validator is applied to the object so changed, and when it or
  the database rejects, \<^verbatim>\<open>createOrder\<close> throws their error and the caller still finds
  the status set.
\<close>

theorem createOrder_mutates_orderObj:
  assumes "data orderObj = Some d"
    and "getTxOut uc (utxoTxid d) (utxoVout d) = Inr utxoStatus"
  shows "fst (snd (createOrder uc orderObj w)) =
           (if utxoStatus = None then orderObj
            else orderObj\<lparr>data := Some (d\<lparr>orderStatus := JStr ''posted''\<rparr>)\<rparr>)
       \<and> fst (createOrder uc orderObj w) =
           (if utxoStatus = None then Inr False
            else case validate uc (orderObj\<lparr>data := Some (d\<lparr>orderStatus := JStr ''posted''\<rparr>)\<rparr>) of
                   Inl err \<Rightarrow> Inl err
                 | Inr orderEntity \<Rightarrow>
                     (case save_error uc orderEntity of
                        Some err \<Rightarrow> Inl err
                      | None \<Rightarrow> Inr True))"
  using assms
  by (simp add: createOrder_def save_def Let_def split: option.splits sum.splits)

text \<open>
  The theorem at a payload the validator rejects, at the scenario's payload with a
  database that rejects the document, and at the scenario's payload with a spent output.
\<close>

theorem createOrder_mutates_orderObj_witness:
  "fst (createOrder scenario_adapters unpriced_payload empty_world) = Inl ValidationError
   \<and> fst (snd (createOrder scenario_adapters unpriced_payload empty_world)) =
       \<lparr>data = Some (scenario_order\<lparr>rateInSats := JUndefined, orderStatus := JStr ''posted''\<rparr>)\<rparr>
   \<and> fst (createOrder (scenario_adapters\<lparr>save_error := (\<lambda>doc. Some PersistenceError)\<rparr>)
            scenario_payload empty_world) = Inl PersistenceError
   \<and> fst (snd (createOrder (scenario_adapters\<lparr>save_error := (\<lambda>doc. Some PersistenceError)\<rparr>)
            scenario_payload empty_world)) =
       \<lparr>data = Some (scenario_order\<lparr>orderStatus := JStr ''posted''\<rparr>)\<rparr>
   \<and> fst (createOrder spent_adapters scenario_payload empty_world) = Inr False
   \<and> fst (snd (createOrder spent_adapters scenario_payload empty_world)) = scenario_payload"
proof -
  have v: "validate_spec
      \<lparr>data = Some (scenario_order\<lparr>rateInSats := JUndefined, orderStatus := JStr ''posted''\<rparr>)\<rparr>
      = Inl ValidationError"
    by (simp add: validate_spec_def parseInt_def Let_def starts_with_def is_white_space_def
        digit_of_def)
  have 1: "fst (createOrder scenario_adapters unpriced_payload empty_world) = Inl ValidationError
    \<and> fst (snd (createOrder scenario_adapters unpriced_payload empty_world)) =
       \<lparr>data = Some (scenario_order\<lparr>rateInSats := JUndefined, orderStatus := JStr ''posted''\<rparr>)\<rparr>"
    using createOrder_mutates_orderObj [of unpriced_payload
        "scenario_order\<lparr>rateInSats := JUndefined\<rparr>" scenario_adapters "Some ()" empty_world] v
    by (simp add: unpriced_payload_def scenario_adapters_def)
  have 2: "fst (createOrder (scenario_adapters\<lparr>save_error := (\<lambda>doc. Some PersistenceError)\<rparr>)
            scenario_payload empty_world) = Inl PersistenceError
    \<and> fst (snd (createOrder (scenario_adapters\<lparr>save_error := (\<lambda>doc. Some PersistenceError)\<rparr>)
            scenario_payload empty_world)) =
       \<lparr>data = Some (scenario_order\<lparr>orderStatus := JStr ''posted''\<rparr>)\<rparr>"
    using createOrder_mutates_orderObj [of scenario_payload scenario_order
        "scenario_adapters\<lparr>save_error := (\<lambda>doc. Some PersistenceError)\<rparr>" "Some ()" empty_world]
      validate_scenario
    by (simp add: scenario_payload_def scenario_adapters_def)
  have 3: "fst (createOrder spent_adapters scenario_payload empty_world) = Inr False
    \<and> fst (snd (createOrder spent_adapters scenario_payload empty_world)) = scenario_payload"
    using createOrder_mutates_orderObj [of scenario_payload scenario_order spent_adapters None
        empty_world]
    by (simp add: scenario_payload_def spent_adapters_def)
  show ?thesis using 1 2 3 by simp
qed

end
